theory Spec2Isabelle
  imports Main
begin

section \<open>Cosigner cards of the multi-signature account wizard\<close>

text \<open>
  A shallow embedding of \<^verbatim>\<open>electrumsv/gui/qt/cosigners_view.py\<close>: the value holder
  \<^verbatim>\<open>CosignerState\<close>, the widget \<^verbatim>\<open>CosignerCard\<close> with its two event handlers and
  \<^verbatim>\<open>_update_keystore\<close>, and the container \<^verbatim>\<open>CosignerList\<close>.

  Of a card the model keeps what the handlers read and write: the bound state, the
  read-only flag and the text of the key field, the icon and tool tip of the key button, the
  text and style sheet of the status label, and the trace of \<^verbatim>\<open>cosigner_updated\<close>
  emissions. Layout, painting, the title and the name field are left out, and the
  translation function \<^verbatim>\<open>_\<close> is the identity.
\<close>

subsection \<open>Collaborators\<close>

text \<open>
  Exceptions are values. \<^verbatim>\<open>ValueError\<close> is the one the key handler catches,
  \<^verbatim>\<open>AssertionError\<close> the one its \<^verbatim>\<open>assert\<close> raises; every other exception a
  collaborator may raise is \<open>OtherError\<close>.
\<close>

datatype error = ValueError | AssertionError | OtherError

text \<open>The two classes of extended key that \<^verbatim>\<open>bitcoinx.bip32_key_from_string\<close> returns.\<close>

datatype bip32_key = BIP32PublicKey | BIP32PrivateKey

datatype KeystoreTextType = EXTENDED_PUBLIC_KEY

text \<open>A keystore, as far as this file observes it: through its two methods.\<close>

record KeyStore =
  get_master_public_key :: string
  is_watching_only :: bool

datatype DialogCode = Rejected | Accepted

text \<open>
  What the modal \<^verbatim>\<open>AccountWizard\<close> answers once \<^verbatim>\<open>run()\<close> has returned.
\<close>

record AccountWizard =
  run :: DialogCode
  has_result :: bool
  get_keystore :: "KeyStore option"

text \<open>
  The library routines the card calls are parameters of the model: the parser of extended
  keys and the keystore factory, each returning its value or the exception it raises.
\<close>

record env =
  bip32_key_from_string :: "string \<Rightarrow> error + bip32_key"
  instantiate_keystore_from_text ::
    "KeystoreTextType \<Rightarrow> string \<Rightarrow> string option \<Rightarrow> error + KeyStore"

subsection \<open>CosignerState\<close>

record CosignerState =
  keystore :: "KeyStore option"
  is_local :: bool
  cosigner_index :: int

definition CosignerState_init :: "int \<Rightarrow> CosignerState" where
  "CosignerState_init i = \<lparr>keystore = None, is_local = False, cosigner_index = i\<rparr>"

definition reset :: "CosignerState \<Rightarrow> CosignerState" where
  "reset s = s\<lparr>keystore := None, is_local := False\<rparr>"

definition is_complete :: "CosignerState \<Rightarrow> bool" where
  "is_complete s = (keystore s \<noteq> None)"

subsection \<open>CosignerCard\<close>

datatype icon = key_icon | delete_icon | copy_icon

record CosignerCard =
  state :: CosignerState
  key_edit_read_only :: bool
  key_edit_text :: string
  key_button_icon :: icon
  key_button_tooltip :: string
  signed_by_text :: string
  signed_by_style :: string
  cosigner_updated :: "int list"

text \<open>
  \<^verbatim>\<open>QPlainTextEdit.appendPlainText\<close> adds a paragraph: on an empty document the text
  becomes the paragraph, otherwise a line break separates it from what was there.
\<close>

definition appendPlainText :: "string \<Rightarrow> string \<Rightarrow> string" where
  "appendPlainText doc t = (if doc = [] then t else doc @ [CHR 0x0A] @ t)"

definition update_status_label :: "CosignerCard \<Rightarrow> CosignerCard" where
  "update_status_label c =
     (if is_complete (state c) then
        (if is_watching_only (the (keystore (state c)))
         then c\<lparr>signed_by_text := ''External party'' @ ''.''\<rparr>
         else c\<lparr>signed_by_text := ''This account'' @ ''.''\<rparr>)
        \<lparr>signed_by_style := ''''\<rparr>
      else c\<lparr>signed_by_text := ''Not yet specified'' @ ''.'',
              signed_by_style := ''QLabel { color: red; }''\<rparr>)"

definition emit_cosigner_updated :: "CosignerCard \<Rightarrow> CosignerCard" where
  "emit_cosigner_updated c =
     c\<lparr>cosigner_updated := cosigner_updated c @ [cosigner_index (state c)]\<rparr>"

text \<open>
  The constructor connects \<^verbatim>\<open>key_edit.textChanged\<close> to \<^verbatim>\<open>_event_text_changed\<close>, and
  Qt delivers a signal as a call of the connected slot. So the handler runs not only when
  the user edits the field but also inside \<^verbatim>\<open>_update_keystore\<close>, after
  \<^verbatim>\<open>clear()\<close> and after \<^verbatim>\<open>appendPlainText(...)\<close>; its first test, on
  \<^verbatim>\<open>isReadOnly()\<close>, is what stops it there. The two functions are mutually recursive
  for that reason. An exception raised in the nested call is passed on like that of any
  other call.
\<close>

function event_text_changed :: "env \<Rightarrow> CosignerCard \<Rightarrow> error + CosignerCard"
  and update_keystore :: "env \<Rightarrow> KeyStore option \<Rightarrow> CosignerCard \<Rightarrow> error + CosignerCard"
where
  "event_text_changed e c =
     (if key_edit_read_only c then Inr c
      else
        (case bip32_key_from_string e (key_edit_text c) of
           Inl ValueError \<Rightarrow> Inr c
         | Inl err \<Rightarrow> Inl err
         | Inr key \<Rightarrow>
             if key \<noteq> BIP32PublicKey then Inr c
             else
               (case instantiate_keystore_from_text e EXTENDED_PUBLIC_KEY (key_edit_text c) None of
                  Inl err \<Rightarrow> Inl err
                | Inr ks \<Rightarrow> update_keystore e (Some ks) c)))"
| "update_keystore e None c =
     (case event_text_changed e
             (c\<lparr>state := reset (state c), key_edit_read_only := False, key_edit_text := ''''\<rparr>) of
        Inl err \<Rightarrow> Inl err
      | Inr c1 \<Rightarrow>
          Inr (emit_cosigner_updated (update_status_label
                 (c1\<lparr>key_button_icon := key_icon,
                     key_button_tooltip := ''Set the current key for this cosigner''\<rparr>))))"
| "update_keystore e (Some ks) c =
     (case event_text_changed e
             (c\<lparr>state := (state c)\<lparr>keystore := Some ks\<rparr>,
                key_edit_read_only := True, key_edit_text := ''''\<rparr>) of
        Inl err \<Rightarrow> Inl err
      | Inr c1 \<Rightarrow>
          (case event_text_changed e
                  (c1\<lparr>key_edit_text :=
                        appendPlainText (key_edit_text c1) (get_master_public_key ks)\<rparr>) of
             Inl err \<Rightarrow> Inl err
           | Inr c2 \<Rightarrow>
               Inr (emit_cosigner_updated (update_status_label
                      (c2\<lparr>key_button_icon := delete_icon,
                          key_button_tooltip := ''Clear the current key for this cosigner''\<rparr>)))))"
  by pat_completeness auto

text \<open>
  The recursion ends because a call of the handler from \<^verbatim>\<open>_update_keystore\<close> either
  finds the field read-only and returns, or binds a keystore, which makes the field
  read-only before any further signal is delivered.
\<close>

definition call_rank ::
  "env \<times> CosignerCard + env \<times> KeyStore option \<times> CosignerCard \<Rightarrow> nat" where
  "call_rank x =
     (case x of
        Inl (e, c) \<Rightarrow> (if key_edit_read_only c then 0 else 2)
      | Inr (e, None, c) \<Rightarrow> 3
      | Inr (e, Some ks, c) \<Rightarrow> 1)"

termination event_text_changed
proof (relation "measure call_rank")
  fix e :: env and ks :: KeyStore and c x2 :: CosignerCard
  let ?c0 = "c\<lparr>state := (state c)\<lparr>keystore := Some ks\<rparr>,
               key_edit_read_only := True, key_edit_text := []\<rparr>"
  assume ret: "event_text_changed e ?c0 = Inr x2"
    and dom: "event_text_changed_update_keystore_dom (Inl (e, ?c0))"
  from dom have "event_text_changed e ?c0 = Inr ?c0"
    by (simp add: event_text_changed.psimps)
  with ret have "key_edit_read_only x2" by auto
  then show "(Inl (e, x2\<lparr>key_edit_text :=
                 appendPlainText (key_edit_text x2) (get_master_public_key ks)\<rparr>),
              Inr (e, Some ks, c)) \<in> measure call_rank"
    by (simp add: call_rank_def)
qed (simp_all add: call_rank_def)

declare event_text_changed.simps [simp del] update_keystore.simps [simp del]

text \<open>
  The user typing or pasting \<open>s\<close> into the key field: the field holds \<open>s\<close> and
  \<^verbatim>\<open>textChanged\<close> is delivered.
\<close>

definition key_edit_input :: "env \<Rightarrow> string \<Rightarrow> CosignerCard \<Rightarrow> error + CosignerCard" where
  "key_edit_input e s c = event_text_changed e (c\<lparr>key_edit_text := s\<rparr>)"

text \<open>
  A click on the key button. The wizard argument is the answer of the modal
  \<^verbatim>\<open>AccountWizard\<close>, consulted only when no keystore is bound.
\<close>

definition event_click_set_cosigner_key ::
  "env \<Rightarrow> AccountWizard \<Rightarrow> CosignerCard \<Rightarrow> error + CosignerCard" where
  "event_click_set_cosigner_key e child_wizard c =
     (if keystore (state c) \<noteq> None then update_keystore e None c
      else if run child_wizard = Accepted then
        (if \<not> has_result child_wizard then Inl AssertionError
         else update_keystore e (get_keystore child_wizard) c)
      else update_keystore e None c)"

definition event_click_copy_key :: "CosignerCard \<Rightarrow> CosignerCard" where
  "event_click_copy_key c = c"

text \<open>
  The constructor: the widgets in their initial condition (an editable, empty key field,
  the key icon, an empty label, nothing emitted yet), then \<^verbatim>\<open>_update_keystore(None)\<close>.
\<close>

definition CosignerCard_init :: "env \<Rightarrow> CosignerState \<Rightarrow> error + CosignerCard" where
  "CosignerCard_init e st =
     update_keystore e None
       \<lparr>state = st, key_edit_read_only = False, key_edit_text = '''',
        key_button_icon = key_icon, key_button_tooltip = '''',
        signed_by_text = '''', signed_by_style = '''', cosigner_updated = []\<rparr>"

subsection \<open>CosignerList\<close>

record CosignerList =
  sorting_enabled :: bool
  items :: "CosignerCard list"

definition CosignerList_init :: CosignerList where
  "CosignerList_init = \<lparr>sorting_enabled = False, items = []\<rparr>"

definition add_state ::
  "env \<Rightarrow> CosignerState \<Rightarrow> CosignerList \<Rightarrow> error + CosignerCard \<times> CosignerList" where
  "add_state e st l =
     (case CosignerCard_init e st of
        Inl err \<Rightarrow> Inl err
      | Inr cc \<Rightarrow> Inr (cc, l\<lparr>items := items l @ [cc]\<rparr>))"

text \<open>One call of \<^verbatim>\<open>add_state\<close> for each state of a list, in order; the cards returned.\<close>

fun add_states ::
  "env \<Rightarrow> CosignerState list \<Rightarrow> CosignerList \<Rightarrow> error + CosignerCard list \<times> CosignerList"
where
  "add_states e [] l = Inr ([], l)"
| "add_states e (st # sts) l =
     (case add_state e st l of
        Inl err \<Rightarrow> Inl err
      | Inr (cc, l1) \<Rightarrow>
          (case add_states e sts l1 of
             Inl err \<Rightarrow> Inl err
           | Inr (ccs, l2) \<Rightarrow> Inr (cc # ccs, l2)))"

subsection \<open>Sample collaborators and inputs\<close>

text \<open>
  A concrete environment on which the functions above can be run: a parser that knows the
  master keys of the first BIP32 test vector and rejects every other text with
  \<^verbatim>\<open>ValueError\<close>, and a factory that returns a watching-only keystore whose master
  public key is the text it was given.
\<close>

definition sample_xpub :: string where
  "sample_xpub = ''xpub661MyMwAqRbcFtXgS5sYJABqqG9YLmC4Q1Rdap9gSE8NqtwybGhePY2gZ29ESFjqJoCu1Rupje8YtGqsefD265TMg7usUDFdp6W1EGMcet8''"

definition sample_xprv :: string where
  "sample_xprv = ''xprv9s21ZrQH143K3QTDL4LXw2F7HEK3wJUD2nW2nRk4stbPy6cq3jPPqjiChkVvvNKmPGJxWUtg6LnF5kejMRNNU3TGtRBeJgk33yuGBxrMPHi''"

definition sample_parser :: "string \<Rightarrow> error + bip32_key" where
  "sample_parser s =
     (if s = sample_xpub then Inr BIP32PublicKey
      else if s = sample_xprv then Inr BIP32PrivateKey
      else Inl ValueError)"

definition sample_keystore :: "string \<Rightarrow> KeyStore" where
  "sample_keystore s = \<lparr>get_master_public_key = s, is_watching_only = True\<rparr>"

definition sample_env :: env where
  "sample_env =
     \<lparr>bip32_key_from_string = sample_parser,
      instantiate_keystore_from_text = (\<lambda>t s p. Inr (sample_keystore s))\<rparr>"

text \<open>The same parser with a factory that raises.\<close>

definition failing_factory_env :: env where
  "failing_factory_env =
     \<lparr>bip32_key_from_string = sample_parser,
      instantiate_keystore_from_text = (\<lambda>t s p. Inl OtherError)\<rparr>"

text \<open>The card of cosigner index 2 as its constructor leaves it, and the same card bound.\<close>

definition empty_card :: CosignerCard where
  "empty_card =
     \<lparr>state = CosignerState_init 2, key_edit_read_only = False, key_edit_text = '''',
      key_button_icon = key_icon,
      key_button_tooltip = ''Set the current key for this cosigner'',
      signed_by_text = ''Not yet specified.'',
      signed_by_style = ''QLabel { color: red; }'',
      cosigner_updated = [2]\<rparr>"

definition bound_card :: CosignerCard where
  "bound_card =
     \<lparr>state = \<lparr>keystore = Some (sample_keystore sample_xpub), is_local = False,
               cosigner_index = 2\<rparr>,
      key_edit_read_only = True, key_edit_text = sample_xpub,
      key_button_icon = delete_icon,
      key_button_tooltip = ''Clear the current key for this cosigner'',
      signed_by_text = ''External party.'',
      signed_by_style = '''',
      cosigner_updated = [2, 2]\<rparr>"

definition cancelled_wizard :: AccountWizard where
  "cancelled_wizard = \<lparr>run = Rejected, has_result = False, get_keystore = None\<rparr>"

section \<open>Properties\<close>

subsection \<open>What the two mutually recursive functions compute\<close>

lemma text_changed_read_only:
  "key_edit_read_only c \<Longrightarrow> event_text_changed e c = Inr c"
  by (simp add: event_text_changed.simps)

text \<open>
  Binding never fails and never re-enters the handler's body: both signals find the field
  read-only.
\<close>

lemma update_keystore_bind:
  "update_keystore e (Some ks) c =
     Inr (emit_cosigner_updated (update_status_label
            (c\<lparr>state := (state c)\<lparr>keystore := Some ks\<rparr>,
               key_edit_read_only := True,
               key_edit_text := get_master_public_key ks,
               key_button_icon := delete_icon,
               key_button_tooltip := ''Clear the current key for this cosigner''\<rparr>)))"
  by (simp add: update_keystore.simps text_changed_read_only appendPlainText_def)

lemma text_changed_rejected:
  "\<not> key_edit_read_only c \<Longrightarrow>
   bip32_key_from_string e (key_edit_text c) = Inl ValueError
     \<or> bip32_key_from_string e (key_edit_text c) = Inr BIP32PrivateKey \<Longrightarrow>
   event_text_changed e c = Inr c"
  by (auto simp add: event_text_changed.simps)

text \<open>
  Resetting clears an editable field, so the handler does run on the empty text. With a
  parser that rejects the empty text, as \<^verbatim>\<open>bitcoinx\<close> does, that call changes
  nothing.
\<close>

lemma update_keystore_reset:
  "bip32_key_from_string e '''' = Inl ValueError \<Longrightarrow>
   update_keystore e None c =
     Inr (emit_cosigner_updated (update_status_label
            (c\<lparr>state := reset (state c),
               key_edit_read_only := False,
               key_edit_text := '''',
               key_button_icon := key_icon,
               key_button_tooltip := ''Set the current key for this cosigner''\<rparr>)))"
  by (simp add: update_keystore.simps text_changed_rejected)

lemma state_update_status_label [simp]: "state (update_status_label c) = state c"
  by (simp add: update_status_label_def)

lemma emitted_update_status_label [simp]:
  "cosigner_updated (update_status_label c) = cosigner_updated c"
  by (simp add: update_status_label_def)

lemma read_only_update_status_label [simp]:
  "key_edit_read_only (update_status_label c) = key_edit_read_only c"
  by (simp add: update_status_label_def)

lemma state_emit_cosigner_updated [simp]: "state (emit_cosigner_updated c) = state c"
  by (simp add: emit_cosigner_updated_def)

lemma read_only_emit_cosigner_updated [simp]:
  "key_edit_read_only (emit_cosigner_updated c) = key_edit_read_only c"
  by (simp add: emit_cosigner_updated_def)

lemma CosignerCard_init_reset:
  "bip32_key_from_string e '''' = Inl ValueError \<Longrightarrow>
   CosignerCard_init e st =
     Inr \<lparr>state = reset st, key_edit_read_only = False, key_edit_text = '''',
          key_button_icon = key_icon,
          key_button_tooltip = ''Set the current key for this cosigner'',
          signed_by_text = ''Not yet specified.'',
          signed_by_style = ''QLabel { color: red; }'',
          cosigner_updated = [cosigner_index st]\<rparr>"
  by (simp add: CosignerCard_init_def update_keystore_reset emit_cosigner_updated_def
      update_status_label_def is_complete_def reset_def)

lemma add_state_reset:
  assumes "bip32_key_from_string e '''' = Inl ValueError"
  shows "\<exists>cc. CosignerCard_init e st = Inr cc
           \<and> add_state e st l = Inr (cc, l\<lparr>items := items l @ [cc]\<rparr>)
           \<and> state cc = reset st"
  using assms by (simp add: add_state_def CosignerCard_init_reset)

subsection \<open>The key field is read-only exactly while a keystore is bound\<close>

text \<open>
  Whatever the collaborators answer, \<^verbatim>\<open>_update_keystore\<close> leaves the card with a
  read-only key field if a keystore is bound and with an editable one if none is. An
  empty card is therefore one whose field accepts input.
\<close>

lemma text_changed_editable:
  assumes "event_text_changed e c = Inr c'"
    and "key_edit_read_only c = is_complete (state c)"
  shows "key_edit_read_only c' = is_complete (state c')"
  using assms
  by (auto simp add: event_text_changed.simps update_keystore_bind is_complete_def
      split: if_splits sum.splits error.splits)

lemma update_keystore_editable:
  assumes "update_keystore e k c = Inr c'"
  shows "key_edit_read_only c' = is_complete (state c')"
proof (cases k)
  case None
  let ?c0 = "c\<lparr>state := reset (state c), key_edit_read_only := False, key_edit_text := ''''\<rparr>"
  from assms None obtain c1 where c1: "event_text_changed e ?c0 = Inr c1"
    and c': "c' = emit_cosigner_updated (update_status_label
                 (c1\<lparr>key_button_icon := key_icon,
                     key_button_tooltip := ''Set the current key for this cosigner''\<rparr>))"
    by (auto simp add: update_keystore.simps split: sum.splits)
  have "key_edit_read_only ?c0 = is_complete (state ?c0)"
    by (simp add: is_complete_def reset_def)
  with c1 have "key_edit_read_only c1 = is_complete (state c1)"
    by (rule text_changed_editable)
  with c' show ?thesis by simp
next
  case (Some ks)
  with assms show ?thesis
    by (auto simp add: update_keystore_bind is_complete_def)
qed

subsection \<open>The cosigner index is carried along\<close>

lemma text_changed_index:
  "event_text_changed e c = Inr c' \<Longrightarrow> cosigner_index (state c') = cosigner_index (state c)"
  by (auto simp add: event_text_changed.simps update_keystore_bind
      split: if_splits sum.splits error.splits)

lemma update_keystore_index:
  "update_keystore e k c = Inr c' \<Longrightarrow> cosigner_index (state c') = cosigner_index (state c)"
proof (cases k)
  case None
  then show "update_keystore e k c = Inr c' \<Longrightarrow> ?thesis"
    by (auto simp add: update_keystore.simps reset_def split: sum.splits
        dest!: text_changed_index)
next
  case (Some ks)
  then show "update_keystore e k c = Inr c' \<Longrightarrow> ?thesis"
    by (auto simp add: update_keystore_bind)
qed

subsection \<open>The sample inputs\<close>

lemma sample_env_rejects_blank: "bip32_key_from_string sample_env '''' = Inl ValueError"
  by (simp add: sample_env_def sample_parser_def sample_xpub_def sample_xprv_def)

lemma empty_card_constructed: "CosignerCard_init sample_env (CosignerState_init 2) = Inr empty_card"
  by (simp add: CosignerCard_init_reset sample_env_rejects_blank empty_card_def reset_def
      CosignerState_init_def)

lemma bound_card_pasted: "key_edit_input sample_env sample_xpub empty_card = Inr bound_card"
  by (simp add: key_edit_input_def event_text_changed.simps update_keystore_bind
      empty_card_def bound_card_def sample_env_def sample_parser_def sample_keystore_def
      emit_cosigner_updated_def update_status_label_def is_complete_def
      CosignerState_init_def)

section \<open>The claims\<close>

text \<open>
  In what follows an \<^emph>\<open>Empty\<close> card is one with no keystore bound, whose key field is
  editable; a \<^emph>\<open>Bound\<close> card is one whose state holds a keystore.
\<close>

text \<open>
  C1. Pasting a public key binds. Let \<open>s\<close> parse as an extended public key and let the
  factory return the keystore \<open>ks\<close> for it. Putting \<open>s\<close> into the key field of an Empty
  card returns normally with a Bound card: the state's keystore is \<open>ks\<close>, the field is
  read-only and shows \<open>ks\<close>'s master public key, and the trace of \<^verbatim>\<open>cosigner_updated\<close>
  has grown by exactly one entry, the card's cosigner index.
\<close>

theorem paste_public_key_binds:
  assumes "keystore (state c) = None" and "\<not> key_edit_read_only c"
    and "bip32_key_from_string e s = Inr BIP32PublicKey"
    and "instantiate_keystore_from_text e EXTENDED_PUBLIC_KEY s None = Inr ks"
  shows "\<exists>c'. key_edit_input e s c = Inr c'
           \<and> keystore (state c') = Some ks
           \<and> is_complete (state c')
           \<and> key_edit_read_only c'
           \<and> key_edit_text c' = get_master_public_key ks
           \<and> cosigner_index (state c') = cosigner_index (state c)
           \<and> cosigner_updated c' = cosigner_updated c @ [cosigner_index (state c)]"
  using assms
  by (simp add: key_edit_input_def event_text_changed.simps update_keystore_bind
      emit_cosigner_updated_def update_status_label_def is_complete_def)

theorem paste_public_key_binds_witness:
  "keystore (state empty_card) = None \<and> \<not> key_edit_read_only empty_card
   \<and> bip32_key_from_string sample_env sample_xpub = Inr BIP32PublicKey
   \<and> instantiate_keystore_from_text sample_env EXTENDED_PUBLIC_KEY sample_xpub None
        = Inr (sample_keystore sample_xpub)
   \<and> (\<exists>c'. key_edit_input sample_env sample_xpub empty_card = Inr c'
           \<and> keystore (state c') = Some (sample_keystore sample_xpub)
           \<and> key_edit_read_only c'
           \<and> key_edit_text c' = sample_xpub
           \<and> cosigner_updated c' = [2, 2])"
proof -
  have h1: "keystore (state empty_card) = None"
    by (simp add: empty_card_def CosignerState_init_def)
  have h2: "\<not> key_edit_read_only empty_card"
    by (simp add: empty_card_def)
  have h3: "bip32_key_from_string sample_env sample_xpub = Inr BIP32PublicKey"
    by (simp add: sample_env_def sample_parser_def)
  have h4: "instantiate_keystore_from_text sample_env EXTENDED_PUBLIC_KEY sample_xpub None
              = Inr (sample_keystore sample_xpub)"
    by (simp add: sample_env_def)
  from paste_public_key_binds [OF h1 h2 h3 h4]
  obtain c' where "key_edit_input sample_env sample_xpub empty_card = Inr c'"
    and "keystore (state c') = Some (sample_keystore sample_xpub)"
    and "key_edit_read_only c'"
    and "key_edit_text c' = get_master_public_key (sample_keystore sample_xpub)"
    and "cosigner_updated c' = cosigner_updated empty_card @ [cosigner_index (state empty_card)]"
    by blast
  then have "key_edit_input sample_env sample_xpub empty_card = Inr c'
           \<and> keystore (state c') = Some (sample_keystore sample_xpub)
           \<and> key_edit_read_only c'
           \<and> key_edit_text c' = sample_xpub
           \<and> cosigner_updated c' = [2, 2]"
    by (simp add: sample_keystore_def empty_card_def CosignerState_init_def)
  then show ?thesis using h1 h2 h3 h4 by blast
qed

text \<open>
  C2. Rejected text is ignored. If the parser raises \<^verbatim>\<open>ValueError\<close> on \<open>s\<close>, or
  returns an extended private key, then putting \<open>s\<close> into the key field of an Empty card
  returns normally and changes nothing but the text the user typed: the state is the same,
  no keystore is bound, nothing is emitted and no exception is raised.
\<close>

theorem rejected_text_is_ignored:
  assumes "keystore (state c) = None" and "\<not> key_edit_read_only c"
    and "bip32_key_from_string e s = Inl ValueError
         \<or> bip32_key_from_string e s = Inr BIP32PrivateKey"
  shows "\<exists>c'. key_edit_input e s c = Inr c' \<and> c' = c\<lparr>key_edit_text := s\<rparr>
           \<and> state c' = state c \<and> keystore (state c') = None
           \<and> cosigner_updated c' = cosigner_updated c"
  using assms by (simp add: key_edit_input_def text_changed_rejected)

theorem rejected_text_is_ignored_witness:
  "keystore (state empty_card) = None \<and> \<not> key_edit_read_only empty_card
   \<and> bip32_key_from_string sample_env ''xpub661MyMw'' = Inl ValueError
   \<and> bip32_key_from_string sample_env sample_xprv = Inr BIP32PrivateKey
   \<and> key_edit_input sample_env ''xpub661MyMw'' empty_card
        = Inr (empty_card\<lparr>key_edit_text := ''xpub661MyMw''\<rparr>)
   \<and> key_edit_input sample_env sample_xprv empty_card
        = Inr (empty_card\<lparr>key_edit_text := sample_xprv\<rparr>)"
proof -
  have h1: "keystore (state empty_card) = None"
    by (simp add: empty_card_def CosignerState_init_def)
  have h2: "\<not> key_edit_read_only empty_card"
    by (simp add: empty_card_def)
  have h3: "bip32_key_from_string sample_env ''xpub661MyMw'' = Inl ValueError"
    by (simp add: sample_env_def sample_parser_def sample_xpub_def sample_xprv_def)
  have h4: "bip32_key_from_string sample_env sample_xprv = Inr BIP32PrivateKey"
    by (simp add: sample_env_def sample_parser_def sample_xpub_def sample_xprv_def)
  from rejected_text_is_ignored [OF h1 h2 disjI1, OF h3]
  have r1: "key_edit_input sample_env ''xpub661MyMw'' empty_card
              = Inr (empty_card\<lparr>key_edit_text := ''xpub661MyMw''\<rparr>)"
    by blast
  from rejected_text_is_ignored [OF h1 h2 disjI2, OF h4]
  have r2: "key_edit_input sample_env sample_xprv empty_card
              = Inr (empty_card\<lparr>key_edit_text := sample_xprv\<rparr>)"
    by blast
  from h1 h2 h3 h4 r1 r2 show ?thesis by blast
qed

text \<open>
  C3. The key button clears a Bound card. With a parser that rejects the empty text, a
  click on the key button of a Bound card returns normally with an Empty card: the state
  is the old one reset (no keystore, not local), the key field is empty and editable, the
  button shows the key icon, and exactly one \<^verbatim>\<open>cosigner_updated\<close> has been emitted,
  with the card's cosigner index. The wizard is not consulted.
\<close>

theorem toggle_bound_card_resets:
  assumes "keystore (state c) \<noteq> None"
    and "bip32_key_from_string e '''' = Inl ValueError"
  shows "\<exists>c'. event_click_set_cosigner_key e w c = Inr c'
           \<and> state c' = reset (state c)
           \<and> keystore (state c') = None \<and> \<not> is_local (state c')
           \<and> cosigner_index (state c') = cosigner_index (state c)
           \<and> key_edit_text c' = '''' \<and> \<not> key_edit_read_only c'
           \<and> key_button_icon c' = key_icon
           \<and> cosigner_updated c' = cosigner_updated c @ [cosigner_index (state c)]"
  using assms
  by (simp add: event_click_set_cosigner_key_def update_keystore_reset
      emit_cosigner_updated_def update_status_label_def is_complete_def reset_def)

theorem toggle_bound_card_resets_witness:
  "keystore (state bound_card) \<noteq> None
   \<and> bip32_key_from_string sample_env '''' = Inl ValueError
   \<and> (\<exists>c'. event_click_set_cosigner_key sample_env cancelled_wizard bound_card = Inr c'
          \<and> state c' = CosignerState_init 2
          \<and> key_edit_text c' = '''' \<and> \<not> key_edit_read_only c'
          \<and> cosigner_updated c' = [2, 2, 2])"
proof -
  have h1: "keystore (state bound_card) \<noteq> None"
    by (simp add: bound_card_def)
  note h2 = sample_env_rejects_blank
  from toggle_bound_card_resets [OF h1 h2, of cancelled_wizard]
  obtain c' where "event_click_set_cosigner_key sample_env cancelled_wizard bound_card = Inr c'"
    and "state c' = reset (state bound_card)"
    and "key_edit_text c' = ''''" and "\<not> key_edit_read_only c'"
    and "cosigner_updated c' = cosigner_updated bound_card @ [cosigner_index (state bound_card)]"
    by blast
  then have "event_click_set_cosigner_key sample_env cancelled_wizard bound_card = Inr c'
          \<and> state c' = CosignerState_init 2
          \<and> key_edit_text c' = '''' \<and> \<not> key_edit_read_only c'
          \<and> cosigner_updated c' = [2, 2, 2]"
    by (simp add: bound_card_def reset_def CosignerState_init_def)
  with h1 h2 show ?thesis by blast
qed

text \<open>
  C4, as the spec states it, does not hold: the handler catches \<^verbatim>\<open>ValueError\<close> around
  the parser call only, and the factory is called outside that \<^verbatim>\<open>try\<close>. With a
  factory that raises after the parser has accepted the text as a public key, the handler
  ends with that exception.
\<close>

theorem factory_failure_counterexample:
  "bip32_key_from_string failing_factory_env sample_xpub = Inr BIP32PublicKey
   \<and> instantiate_keystore_from_text failing_factory_env EXTENDED_PUBLIC_KEY sample_xpub None
        = Inl OtherError
   \<and> key_edit_input failing_factory_env sample_xpub empty_card = Inl OtherError"
  by (simp add: key_edit_input_def event_text_changed.simps failing_factory_env_def
      sample_parser_def empty_card_def)

text \<open>
  C4, amended. On an editable key field, a \<^verbatim>\<open>ValueError\<close> of the parser is caught and
  the text counts as not yet a valid key: the handler returns normally and the card is as it
  was. A failure of the keystore factory after a successful public-key parse is not caught:
  the handler ends with that exception.
\<close>

theorem only_parser_value_error_is_caught:
  assumes "\<not> key_edit_read_only c"
  shows "(bip32_key_from_string e s = Inl ValueError \<longrightarrow>
            key_edit_input e s c = Inr (c\<lparr>key_edit_text := s\<rparr>))
       \<and> (bip32_key_from_string e s = Inr BIP32PublicKey
            \<and> instantiate_keystore_from_text e EXTENDED_PUBLIC_KEY s None = Inl err \<longrightarrow>
            key_edit_input e s c = Inl err)"
  using assms by (simp add: key_edit_input_def event_text_changed.simps)

theorem only_parser_value_error_is_caught_witness:
  "\<not> key_edit_read_only empty_card
   \<and> bip32_key_from_string sample_env ''not a key'' = Inl ValueError
   \<and> key_edit_input sample_env ''not a key'' empty_card
        = Inr (empty_card\<lparr>key_edit_text := ''not a key''\<rparr>)
   \<and> bip32_key_from_string failing_factory_env sample_xpub = Inr BIP32PublicKey
   \<and> instantiate_keystore_from_text failing_factory_env EXTENDED_PUBLIC_KEY sample_xpub None
        = Inl OtherError
   \<and> key_edit_input failing_factory_env sample_xpub empty_card = Inl OtherError"
proof -
  have h0: "\<not> key_edit_read_only empty_card"
    by (simp add: empty_card_def)
  have h1: "bip32_key_from_string sample_env ''not a key'' = Inl ValueError"
    by (simp add: sample_env_def sample_parser_def sample_xpub_def sample_xprv_def)
  have h2: "bip32_key_from_string failing_factory_env sample_xpub = Inr BIP32PublicKey"
    by (simp add: failing_factory_env_def sample_parser_def)
  have h3: "instantiate_keystore_from_text failing_factory_env EXTENDED_PUBLIC_KEY
              sample_xpub None = Inl OtherError"
    by (simp add: failing_factory_env_def)
  from only_parser_value_error_is_caught [OF h0, of sample_env "''not a key''"] h1
  have r1: "key_edit_input sample_env ''not a key'' empty_card
              = Inr (empty_card\<lparr>key_edit_text := ''not a key''\<rparr>)"
    by blast
  from only_parser_value_error_is_caught [OF h0, of failing_factory_env sample_xpub OtherError]
    h2 h3
  have r2: "key_edit_input failing_factory_env sample_xpub empty_card = Inl OtherError"
    by blast
  from h0 h1 h2 h3 r1 r2 show ?thesis by blast
qed

text \<open>
  C5. \<^verbatim>\<open>is_complete()\<close> is true exactly when a keystore is held. So it is false for a
  state just constructed and for a state just reset, and true for the state of the card
  that \<^verbatim>\<open>_update_keystore\<close> returns when it is given a keystore, which it always does.
\<close>

theorem is_complete_iff_keystore:
  "is_complete s = (keystore s \<noteq> None)
   \<and> \<not> is_complete (CosignerState_init i)
   \<and> \<not> is_complete (reset s)
   \<and> (\<exists>c'. update_keystore e (Some ks) c = Inr c' \<and> keystore (state c') = Some ks
          \<and> is_complete (state c'))"
  by (simp add: is_complete_def CosignerState_init_def reset_def update_keystore_bind)

text \<open>
  C6. A wizard that is not accepted resets and notifies. With a parser that rejects the empty
  text, a click on the key button of an Empty card whose wizard does not answer
  \<^verbatim>\<open>Accepted\<close> returns normally with the card reset: no keystore, an empty editable
  field, and one more \<^verbatim>\<open>cosigner_updated\<close> with the card's cosigner index. The state
  is the old one reset, which is the old one itself where it was not marked local.
\<close>

theorem cancelled_wizard_resets_and_notifies:
  assumes "keystore (state c) = None"
    and "run w \<noteq> Accepted"
    and "bip32_key_from_string e '''' = Inl ValueError"
  shows "\<exists>c'. event_click_set_cosigner_key e w c = Inr c'
           \<and> state c' = reset (state c)
           \<and> keystore (state c') = None
           \<and> (\<not> is_local (state c) \<longrightarrow> state c' = state c)
           \<and> key_edit_text c' = '''' \<and> \<not> key_edit_read_only c'
           \<and> cosigner_updated c' = cosigner_updated c @ [cosigner_index (state c)]"
  using assms
  by (simp add: event_click_set_cosigner_key_def update_keystore_reset
      emit_cosigner_updated_def update_status_label_def is_complete_def reset_def)

theorem cancelled_wizard_resets_and_notifies_witness:
  "keystore (state empty_card) = None
   \<and> run cancelled_wizard \<noteq> Accepted
   \<and> bip32_key_from_string sample_env '''' = Inl ValueError
   \<and> (\<exists>c'. event_click_set_cosigner_key sample_env cancelled_wizard empty_card = Inr c'
          \<and> state c' = state empty_card
          \<and> cosigner_updated c' = [2, 2])"
proof -
  have h1: "keystore (state empty_card) = None"
    by (simp add: empty_card_def CosignerState_init_def)
  have h2: "run cancelled_wizard \<noteq> Accepted"
    by (simp add: cancelled_wizard_def)
  note h3 = sample_env_rejects_blank
  have h4: "\<not> is_local (state empty_card)"
    by (simp add: empty_card_def CosignerState_init_def)
  from cancelled_wizard_resets_and_notifies [OF h1 h2 h3] h4
  obtain c' where "event_click_set_cosigner_key sample_env cancelled_wizard empty_card = Inr c'"
    and "state c' = state empty_card"
    and "cosigner_updated c' = cosigner_updated empty_card @ [cosigner_index (state empty_card)]"
    by blast
  then have "event_click_set_cosigner_key sample_env cancelled_wizard empty_card = Inr c'
          \<and> state c' = state empty_card
          \<and> cosigner_updated c' = [2, 2]"
    by (simp add: empty_card_def CosignerState_init_def)
  with h1 h2 h3 show ?thesis by blast
qed

text \<open>
  C7. The status label is determined by the state. \<^verbatim>\<open>_update_status_label\<close> writes
  "Not yet specified." with the red style sheet when the state is not complete, "External
  party." with the empty style sheet when it holds a watching-only keystore, and "This
  account." with the empty style sheet when it holds any other keystore; two cards with the
  same state get the same text and style.
\<close>

theorem status_label_follows_state:
  "(\<not> is_complete (state c) \<longrightarrow>
      signed_by_text (update_status_label c) = ''Not yet specified.''
      \<and> signed_by_style (update_status_label c) = ''QLabel { color: red; }'')
   \<and> (\<forall>ks. keystore (state c) = Some ks \<and> is_watching_only ks \<longrightarrow>
      is_complete (state c)
      \<and> signed_by_text (update_status_label c) = ''External party.''
      \<and> signed_by_style (update_status_label c) = '''')
   \<and> (\<forall>ks. keystore (state c) = Some ks \<and> \<not> is_watching_only ks \<longrightarrow>
      is_complete (state c)
      \<and> signed_by_text (update_status_label c) = ''This account.''
      \<and> signed_by_style (update_status_label c) = '''')
   \<and> (\<forall>d. state d = state c \<longrightarrow>
      signed_by_text (update_status_label d) = signed_by_text (update_status_label c)
      \<and> signed_by_style (update_status_label d) = signed_by_style (update_status_label c))"
  by (simp add: update_status_label_def is_complete_def)

theorem status_label_follows_state_witness:
  "\<not> is_complete (state empty_card)
   \<and> signed_by_text (update_status_label empty_card) = ''Not yet specified.''
   \<and> signed_by_style (update_status_label empty_card) = ''QLabel { color: red; }''
   \<and> keystore (state bound_card) = Some (sample_keystore sample_xpub)
   \<and> is_watching_only (sample_keystore sample_xpub)
   \<and> signed_by_text (update_status_label bound_card) = ''External party.''
   \<and> signed_by_style (update_status_label bound_card) = ''''
   \<and> signed_by_text (update_status_label
        (bound_card\<lparr>state := (state bound_card)\<lparr>keystore :=
           Some ((sample_keystore sample_xpub)\<lparr>is_watching_only := False\<rparr>)\<rparr>\<rparr>))
        = ''This account.''
   \<and> signed_by_text (update_status_label (empty_card\<lparr>state := state bound_card\<rparr>))
        = signed_by_text (update_status_label bound_card)"
proof -
  let ?local = "bound_card\<lparr>state := (state bound_card)\<lparr>keystore :=
           Some ((sample_keystore sample_xpub)\<lparr>is_watching_only := False\<rparr>)\<rparr>\<rparr>"
  have h1: "\<not> is_complete (state empty_card)"
    by (simp add: is_complete_def empty_card_def CosignerState_init_def)
  have h2: "keystore (state bound_card) = Some (sample_keystore sample_xpub)"
    by (simp add: bound_card_def)
  have h3: "is_watching_only (sample_keystore sample_xpub)"
    by (simp add: sample_keystore_def)
  have h4: "keystore (state ?local)
              = Some ((sample_keystore sample_xpub)\<lparr>is_watching_only := False\<rparr>)"
    by simp
  have h5: "\<not> is_watching_only ((sample_keystore sample_xpub)\<lparr>is_watching_only := False\<rparr>)"
    by simp
  have h6: "state (empty_card\<lparr>state := state bound_card\<rparr>) = state bound_card"
    by simp
  from status_label_follows_state [of empty_card] h1
  have r1: "signed_by_text (update_status_label empty_card) = ''Not yet specified.''
      \<and> signed_by_style (update_status_label empty_card) = ''QLabel { color: red; }''"
    by blast
  from status_label_follows_state [of bound_card] h2 h3 h6
  have r2: "signed_by_text (update_status_label bound_card) = ''External party.''
      \<and> signed_by_style (update_status_label bound_card) = ''''
      \<and> signed_by_text (update_status_label (empty_card\<lparr>state := state bound_card\<rparr>))
        = signed_by_text (update_status_label bound_card)"
    by blast
  from status_label_follows_state [of ?local] h4 h5
  have r3: "signed_by_text (update_status_label ?local) = ''This account.''"
    by blast
  from h1 h2 h3 r1 r2 r3 show ?thesis by blast
qed

text \<open>
  C8. \<^verbatim>\<open>reset()\<close> is total; it sets the keystore to none and the local flag to false
  and keeps the cosigner index. No operation of the file changes the index: not the label
  update, the copy handler, the text handler, user input, \<^verbatim>\<open>_update_keystore\<close>, the
  key button or the constructor, whenever they return.
\<close>

theorem cosigner_index_is_never_modified:
  "keystore (reset s) = None \<and> is_local (reset s) = False
   \<and> cosigner_index (reset s) = cosigner_index s
   \<and> cosigner_index (state (update_status_label c)) = cosigner_index (state c)
   \<and> cosigner_index (state (event_click_copy_key c)) = cosigner_index (state c)
   \<and> (\<forall>c'. event_text_changed e c = Inr c' \<longrightarrow>
         cosigner_index (state c') = cosigner_index (state c))
   \<and> (\<forall>c'. key_edit_input e t c = Inr c' \<longrightarrow>
         cosigner_index (state c') = cosigner_index (state c))
   \<and> (\<forall>c'. update_keystore e k c = Inr c' \<longrightarrow>
         cosigner_index (state c') = cosigner_index (state c))
   \<and> (\<forall>c'. event_click_set_cosigner_key e w c = Inr c' \<longrightarrow>
         cosigner_index (state c') = cosigner_index (state c))
   \<and> (\<forall>c'. CosignerCard_init e s = Inr c' \<longrightarrow>
         cosigner_index (state c') = cosigner_index s)"
proof -
  have a: "\<forall>c'. key_edit_input e t c = Inr c' \<longrightarrow>
         cosigner_index (state c') = cosigner_index (state c)"
    using text_changed_index [of e "c\<lparr>key_edit_text := t\<rparr>"]
    by (simp add: key_edit_input_def)
  have b: "\<forall>c'. event_click_set_cosigner_key e w c = Inr c' \<longrightarrow>
         cosigner_index (state c') = cosigner_index (state c)"
    by (auto simp add: event_click_set_cosigner_key_def split: if_splits
        dest: update_keystore_index)
  have c: "\<forall>c'. CosignerCard_init e s = Inr c' \<longrightarrow>
         cosigner_index (state c') = cosigner_index s"
    by (auto simp add: CosignerCard_init_def dest: update_keystore_index)
  have d: "keystore (reset s) = None \<and> is_local (reset s) = False
   \<and> cosigner_index (reset s) = cosigner_index s"
    by (simp add: reset_def)
  from a b c d show ?thesis
    by (simp add: event_click_copy_key_def text_changed_index update_keystore_index)
qed

theorem cosigner_index_is_never_modified_witness:
  "key_edit_input sample_env sample_xpub empty_card = Inr bound_card
   \<and> cosigner_index (state bound_card) = cosigner_index (state empty_card)
   \<and> CosignerCard_init sample_env (CosignerState_init 2) = Inr empty_card
   \<and> cosigner_index (state empty_card) = cosigner_index (CosignerState_init 2)
   \<and> cosigner_index (reset (state bound_card)) = cosigner_index (state bound_card)"
proof -
  note h1 = bound_card_pasted
  note h2 = empty_card_constructed
  from cosigner_index_is_never_modified
         [of "state bound_card" empty_card sample_env sample_xpub None cancelled_wizard] h1
  have r1: "cosigner_index (state bound_card) = cosigner_index (state empty_card)"
    and r3: "cosigner_index (reset (state bound_card)) = cosigner_index (state bound_card)"
    by blast+
  from cosigner_index_is_never_modified
         [of "CosignerState_init 2" empty_card sample_env sample_xpub None cancelled_wizard] h2
  have r2: "cosigner_index (state empty_card) = cosigner_index (CosignerState_init 2)"
    by blast
  from h1 h2 r1 r2 r3 show ?thesis by blast
qed

text \<open>
  C9. \<^verbatim>\<open>add_state\<close> appends in insertion order. With a parser that rejects the empty
  text, calling \<^verbatim>\<open>add_state\<close> once for each of N states, whatever keystores they hold,
  raises nothing and extends the list by exactly N cards, in the order of the calls. Each
  card is the one the constructor builds for its state and the one the call returns, it
  carries that state's cosigner index and the state reset, and the list's sorting stays as
  it was, which for a new list is disabled.
\<close>

theorem add_states_appends_in_order:
  assumes "bip32_key_from_string e '''' = Inl ValueError"
  shows "\<exists>ccs l'. add_states e sts l = Inr (ccs, l')
           \<and> items l' = items l @ ccs
           \<and> length ccs = length sts
           \<and> map (\<lambda>cc. cosigner_index (state cc)) ccs = map cosigner_index sts
           \<and> map state ccs = map reset sts
           \<and> map Inr ccs = map (CosignerCard_init e) sts
           \<and> sorting_enabled l' = sorting_enabled l
           \<and> \<not> sorting_enabled CosignerList_init \<and> items CosignerList_init = []"
proof (induction sts arbitrary: l)
  case Nil
  show ?case by (simp add: CosignerList_init_def)
next
  case (Cons st sts)
  from add_state_reset [OF assms, of st l]
  obtain cc where init: "CosignerCard_init e st = Inr cc"
    and add: "add_state e st l = Inr (cc, l\<lparr>items := items l @ [cc]\<rparr>)"
    and st: "state cc = reset st"
    by blast
  from Cons.IH [of "l\<lparr>items := items l @ [cc]\<rparr>"]
  obtain ccs l' where rest: "add_states e sts (l\<lparr>items := items l @ [cc]\<rparr>) = Inr (ccs, l')"
    and "items l' = items (l\<lparr>items := items l @ [cc]\<rparr>) @ ccs"
    and "length ccs = length sts"
    and "map (\<lambda>cc. cosigner_index (state cc)) ccs = map cosigner_index sts"
    and "map state ccs = map reset sts"
    and "map Inr ccs = map (CosignerCard_init e) sts"
    and "sorting_enabled l' = sorting_enabled (l\<lparr>items := items l @ [cc]\<rparr>)"
    by blast
  with init add st have "add_states e (st # sts) l = Inr (cc # ccs, l')
           \<and> items l' = items l @ (cc # ccs)
           \<and> length (cc # ccs) = length (st # sts)
           \<and> map (\<lambda>cc. cosigner_index (state cc)) (cc # ccs) = map cosigner_index (st # sts)
           \<and> map state (cc # ccs) = map reset (st # sts)
           \<and> map Inr (cc # ccs) = map (CosignerCard_init e) (st # sts)
           \<and> sorting_enabled l' = sorting_enabled l
           \<and> \<not> sorting_enabled CosignerList_init \<and> items CosignerList_init = []"
    by (simp add: reset_def CosignerList_init_def)
  then show ?case
    by (intro exI [of _ "cc # ccs"] exI [of _ l'])
qed

theorem add_states_appends_in_order_witness:
  "bip32_key_from_string sample_env '''' = Inl ValueError
   \<and> (\<exists>ccs l'. add_states sample_env
                   [state bound_card, CosignerState_init 0, CosignerState_init 1]
                   CosignerList_init = Inr (ccs, l')
          \<and> items l' = ccs
          \<and> length ccs = 3
          \<and> map (\<lambda>cc. cosigner_index (state cc)) ccs = [2, 0, 1])"
proof -
  note blank = sample_env_rejects_blank
  from add_states_appends_in_order [OF blank,
         of "[state bound_card, CosignerState_init 0, CosignerState_init 1]" CosignerList_init]
  obtain ccs l' where "add_states sample_env
                   [state bound_card, CosignerState_init 0, CosignerState_init 1]
                   CosignerList_init = Inr (ccs, l')"
    and "items l' = items CosignerList_init @ ccs"
    and "length ccs = length [state bound_card, CosignerState_init 0, CosignerState_init 1]"
    and "map (\<lambda>cc. cosigner_index (state cc)) ccs
           = map cosigner_index [state bound_card, CosignerState_init 0, CosignerState_init 1]"
    by blast
  then have "add_states sample_env
                   [state bound_card, CosignerState_init 0, CosignerState_init 1]
                   CosignerList_init = Inr (ccs, l')
          \<and> items l' = ccs
          \<and> length ccs = 3
          \<and> map (\<lambda>cc. cosigner_index (state cc)) ccs = [2, 0, 1]"
    by (simp add: CosignerList_init_def bound_card_def CosignerState_init_def)
  then have "\<exists>ccs l'. add_states sample_env
                   [state bound_card, CosignerState_init 0, CosignerState_init 1]
                   CosignerList_init = Inr (ccs, l')
          \<and> items l' = ccs
          \<and> length ccs = 3
          \<and> map (\<lambda>cc. cosigner_index (state cc)) ccs = [2, 0, 1]"
    by (intro exI [of _ ccs] exI [of _ l'])
  with blank show ?thesis by (rule conjI)
qed

text \<open>
  C10. Construction resets the state it is given. With a parser that rejects the empty text,
  the constructor, and so \<^verbatim>\<open>add_state\<close>, returns a card whose state is the supplied
  one reset, with no keystore even if the supplied state held one, and whose trace of
  \<^verbatim>\<open>cosigner_updated\<close> holds exactly one entry, the state's cosigner index.
\<close>

theorem construction_resets_and_notifies:
  assumes "bip32_key_from_string e '''' = Inl ValueError"
  shows "\<exists>cc. CosignerCard_init e st = Inr cc
           \<and> add_state e st l = Inr (cc, l\<lparr>items := items l @ [cc]\<rparr>)
           \<and> state cc = reset st
           \<and> keystore (state cc) = None \<and> \<not> is_local (state cc)
           \<and> \<not> is_complete (state cc)
           \<and> cosigner_index (state cc) = cosigner_index st
           \<and> cosigner_updated cc = [cosigner_index st]"
  using assms
  by (simp add: add_state_def CosignerCard_init_reset reset_def is_complete_def)

theorem construction_resets_and_notifies_witness:
  "bip32_key_from_string sample_env '''' = Inl ValueError
   \<and> keystore (state bound_card) \<noteq> None
   \<and> (\<exists>cc. CosignerCard_init sample_env (state bound_card) = Inr cc
          \<and> add_state sample_env (state bound_card) CosignerList_init
               = Inr (cc, \<lparr>sorting_enabled = False, items = [cc]\<rparr>)
          \<and> keystore (state cc) = None
          \<and> cosigner_updated cc = [2])"
proof -
  note blank = sample_env_rejects_blank
  have bound: "keystore (state bound_card) \<noteq> None"
    by (simp add: bound_card_def)
  from construction_resets_and_notifies [OF blank, of "state bound_card" CosignerList_init]
  obtain cc where "CosignerCard_init sample_env (state bound_card) = Inr cc"
    and "add_state sample_env (state bound_card) CosignerList_init
           = Inr (cc, CosignerList_init\<lparr>items := items CosignerList_init @ [cc]\<rparr>)"
    and "keystore (state cc) = None"
    and "cosigner_updated cc = [cosigner_index (state bound_card)]"
    by blast
  then have "CosignerCard_init sample_env (state bound_card) = Inr cc
          \<and> add_state sample_env (state bound_card) CosignerList_init
               = Inr (cc, \<lparr>sorting_enabled = False, items = [cc]\<rparr>)
          \<and> keystore (state cc) = None
          \<and> cosigner_updated cc = [2]"
    by (simp add: CosignerList_init_def bound_card_def)
  with blank bound show ?thesis by blast
qed

end
